theory Spec2Isabelle
  imports Complex_Main "HOL-Library.Multiset" "HOL-Library.Sublist" "HOL-Library.Log_Nat"
begin

section \<open>Values\<close>

text \<open>
  A Python scalar as it occurs in a data-frame cell or in a decoded JSON response:
  \<open>None\<close>, the float \<open>nan\<close>, a finite number, or a string. A finite number is kept as
  the rational it denotes: a binary64 float, or an \<open>int\<close>. Arithmetic on numbers rounds
  its exact result to binary64 (\<open>fl64\<close> below), which is what Python does on floats and
  is exact on integers below \<open>2 ^ 53\<close>. Infinities, booleans and nested containers are
  not scalars here.
\<close>

datatype pyval = PyNone | PyNaN | PyNum rat | PyStr string

text \<open>A value known to be a Python \<open>float\<close>: the result of \<open>float(...)\<close> or \<open>np.nan\<close>.\<close>

datatype pyfloat = NaN | Fin rat

text \<open>The exceptions that the scraper can meet; \<open>OtherError\<close> stands for any other class.\<close>

datatype exn =
    RequestException | ValueError | KeyError | TypeError | AttributeError
  | EmptyDataError | ZeroDivisionError | OtherError

subsection \<open>Rounding to binary64\<close>

text \<open>
  Round-to-nearest, ties-to-even, with a 53-bit significand. The exponent range is not
  bounded: there is no overflow to infinity and there are no subnormals, so \<open>fl64\<close>
  agrees with the hardware on results of magnitude between \<open>2 ^ - 1022\<close> and \<open>2 ^ 1024\<close>.
\<close>

definition pow2 :: "int \<Rightarrow> rat" where
  "pow2 k = (if 0 \<le> k then 2 ^ nat k else 1 / 2 ^ nat (- k))"

text \<open>For \<open>x > 0\<close>, the \<open>k\<close> with \<open>2 ^ k \<le> x < 2 ^ (k + 1)\<close>.\<close>

definition ilog2 :: "rat \<Rightarrow> int" where
  "ilog2 x = (let (n, d) = quotient_of x; k = bitlen n - bitlen d
              in if pow2 k \<le> x then k else k - 1)"

definition round_even :: "rat \<Rightarrow> int" where
  "round_even r = (let f = \<lfloor>r\<rfloor>; d = r - of_int f
                   in if d < 1 / 2 then f
                      else if 1 / 2 < d then f + 1
                      else if even f then f else f + 1)"

definition fl64_pos :: "rat \<Rightarrow> rat" where
  "fl64_pos x = (let e = ilog2 x - 52 in of_int (round_even (x / pow2 e)) * pow2 e)"

definition fl64 :: "rat \<Rightarrow> rat" where
  "fl64 x = (if x = 0 then 0 else if 0 < x then fl64_pos x else - fl64_pos (- x))"

text \<open>The unit roundoff of binary64.\<close>

definition u64 :: rat where
  "u64 = 1 / 2 ^ 53"

subsection \<open>Python operations on scalars\<close>

text \<open>\<open>isinstance(x, (int, float))\<close>: true of every number and of \<open>nan\<close>.\<close>

fun is_number :: "pyval \<Rightarrow> bool" where
  "is_number (PyNum _) = True"
| "is_number PyNaN = True"
| "is_number _ = False"

text \<open>\<open>pd.isna(x)\<close> on a scalar.\<close>

fun isna :: "pyval \<Rightarrow> bool" where
  "isna PyNone = True"
| "isna PyNaN = True"
| "isna _ = False"

text \<open>
  Python's \<open><\<close> and \<open>></\<close> on two values that are both numbers: every comparison with
  \<open>nan\<close> is false. The callers only compare values they have filtered with
  \<open>is_number\<close>.
\<close>

fun num_lt :: "pyval \<Rightarrow> pyval \<Rightarrow> bool" where
  "num_lt (PyNum a) (PyNum b) = (a < b)"
| "num_lt _ _ = False"

definition num_gt :: "pyval \<Rightarrow> pyval \<Rightarrow> bool" where
  "num_gt a b = num_lt b a"

text \<open>Python's \<open>+\<close> on two numbers: \<open>nan\<close> absorbs.\<close>

fun num_add :: "pyval \<Rightarrow> pyval \<Rightarrow> pyval" where
  "num_add (PyNum a) (PyNum b) = PyNum (fl64 (a + b))"
| "num_add _ _ = PyNaN"

text \<open>Float comparison, multiplication and division, as on \<open>float\<close> operands.\<close>

fun flt_lt :: "pyfloat \<Rightarrow> pyfloat \<Rightarrow> bool" where
  "flt_lt (Fin a) (Fin b) = (a < b)"
| "flt_lt _ _ = False"

fun flt_mul :: "pyfloat \<Rightarrow> pyfloat \<Rightarrow> pyfloat" where
  "flt_mul (Fin a) (Fin b) = Fin (fl64 (a * b))"
| "flt_mul _ _ = NaN"

text \<open>Division by a non-zero constant, the only division on floats in the scraper.\<close>

fun flt_div_const :: "pyfloat \<Rightarrow> rat \<Rightarrow> pyfloat" where
  "flt_div_const (Fin a) c = Fin (fl64 (a / c))"
| "flt_div_const NaN c = NaN"

fun isnan :: "pyfloat \<Rightarrow> bool" where
  "isnan NaN = True"
| "isnan (Fin _) = False"

section \<open>Strings\<close>

text \<open>
  Text is a list of bytes (the UTF-8 encoding of the Python string). The functions below
  are the \<open>str\<close> methods and the one regular expression that the scraper uses.
\<close>

text \<open>The ASCII characters that \<open>str.strip()\<close> removes.\<close>

definition is_space :: "char \<Rightarrow> bool" where
  "is_space c = (c \<in> set [CHR '' '', CHR 0x09, CHR 0x0A, CHR 0x0B, CHR 0x0C, CHR 0x0D,
                          CHR 0x1C, CHR 0x1D, CHR 0x1E, CHR 0x1F])"

definition strip :: "string \<Rightarrow> string" where
  "strip s = rev (dropWhile is_space (rev (dropWhile is_space s)))"

text \<open>\<open>sub in s\<close>.\<close>

definition contains :: "string \<Rightarrow> string \<Rightarrow> bool" where
  "contains sub s = sublist sub s"

text \<open>\<open>s.startswith(p)\<close>.\<close>

definition startswith :: "string \<Rightarrow> string \<Rightarrow> bool" where
  "startswith s p = prefix p s"

text \<open>
  \<open>s.replace(old, '')\<close>: the occurrences of \<open>old\<close> are found from the left and do not
  overlap; the result is not scanned again.
\<close>

fun remove_all :: "string \<Rightarrow> string \<Rightarrow> string" where
  "remove_all old [] = []"
| "remove_all old (c # cs) =
     (if old \<noteq> [] \<and> prefix old (c # cs)
      then remove_all old (drop (length old - 1) cs)
      else c # remove_all old cs)"

text \<open>\<open>s.split(sep)\<close> for a non-empty separator; \<open>cur\<close> is the field being read, reversed.\<close>

fun split_acc :: "string \<Rightarrow> string \<Rightarrow> string \<Rightarrow> string list" where
  "split_acc sep cur [] = [rev cur]"
| "split_acc sep cur (c # cs) =
     (if sep \<noteq> [] \<and> prefix sep (c # cs)
      then rev cur # split_acc sep [] (drop (length sep - 1) cs)
      else split_acc sep (c # cur) cs)"

definition str_split :: "string \<Rightarrow> string \<Rightarrow> string list" where
  "str_split sep s = split_acc sep [] s"

text \<open>\<open>sep.join(xs)\<close>.\<close>

fun join :: "string \<Rightarrow> string list \<Rightarrow> string" where
  "join sep [] = []"
| "join sep [x] = x"
| "join sep (x # y # ys) = x @ sep @ join sep (y # ys)"

definition is_digit :: "char \<Rightarrow> bool" where
  "is_digit c = (c \<in> set ''0123456789'')"

text \<open>
  The regular expression \<open>(\d+\.\d+)%\<close> anchored at the head of \<open>s\<close>: a maximal run
  of digits, a dot, a maximal run of digits, a percent sign. Taking fewer digits than the
  maximal run never helps, since the character after a shorter run is a digit. The
  result is group 1.
\<close>

definition match_percent :: "string \<Rightarrow> string option" where
  "match_percent s =
     (let d1 = takeWhile is_digit s; r1 = dropWhile is_digit s in
      if d1 = [] then None else
      case r1 of
        [] \<Rightarrow> None
      | c # r2 \<Rightarrow>
          if c \<noteq> CHR ''.'' then None else
          (let d2 = takeWhile is_digit r2; r3 = dropWhile is_digit r2 in
           if d2 = [] then None else
           case r3 of
             [] \<Rightarrow> None
           | p # _ \<Rightarrow> if p = CHR ''%'' then Some (d1 @ ''.'' @ d2) else None))"

text \<open>\<open>re.search(r'(\d+\.\d+)%', s)\<close>: the leftmost match, as its group 1.\<close>

fun search_percent :: "string \<Rightarrow> string option" where
  "search_percent [] = None"
| "search_percent (c # cs) =
     (case match_percent (c # cs) of Some g \<Rightarrow> Some g | None \<Rightarrow> search_percent cs)"

text \<open>
  A decimal reader for the examples: an optional minus sign, digits, and optionally a dot
  and more digits. It agrees with Python's \<open>float\<close> on what it accepts and rejects
  everything else; \<open>float\<close> itself accepts more (exponents, \<open>inf\<close>, \<open>nan\<close>,
  surrounding blanks), so the functions below take the conversion as a parameter
  \<open>to_float\<close>, where \<open>None\<close> stands for \<open>ValueError\<close>.
\<close>

definition digit_val :: "char \<Rightarrow> nat" where
  "digit_val c = of_char c - 48"

definition digits_val :: "string \<Rightarrow> nat" where
  "digits_val ds = foldl (\<lambda>a c. 10 * a + digit_val c) 0 ds"

definition unsigned_decimal :: "string \<Rightarrow> rat option" where
  "unsigned_decimal s =
     (let d1 = takeWhile is_digit s; r1 = dropWhile is_digit s in
      if d1 = [] then None else
      case r1 of
        [] \<Rightarrow> Some (of_nat (digits_val d1))
      | c # d2 \<Rightarrow>
          if c = CHR ''.'' \<and> d2 \<noteq> [] \<and> list_all is_digit d2
          then Some (of_nat (digits_val d1) + of_nat (digits_val d2) / 10 ^ length d2)
          else None)"

definition decimal_float :: "string \<Rightarrow> pyfloat option" where
  "decimal_float s =
     (case s of
        [] \<Rightarrow> None
      | c # cs \<Rightarrow>
          if c = CHR ''-'' then map_option (\<lambda>r. Fin (fl64 (- r))) (unsigned_decimal cs)
          else map_option (\<lambda>r. Fin (fl64 r)) (unsigned_decimal (c # cs)))"

section \<open>The fund table of \<open>datapreprocess.py\<close>\<close>

text \<open>
  One row of the data frame read from \<open>raw_data.xlsx\<close>. The frame has the columns that
  \<open>main\<close> of \<open>webscraping.py\<close> writes; a frame is the list of its rows, in order.
\<close>

record fund_row =
  name :: pyval
  aum :: pyval
  nav :: pyval
  exit_load :: pyval
  rating :: pyval
  minimum_investment :: pyval
  minimum_sip_investment :: pyval
  pe :: pyval
  pb :: pyval
  debt_per :: pyval
  equity_per :: pyval
  average_maturity :: pyval
  yield_to_maturity :: pyval
  risk :: pyval
  ftype :: pyval
  one_year_return :: pyval
  three_year_return :: pyval
  five_year_return :: pyval
  link :: pyval
  historical_nav :: pyval
  top_holdings :: pyval
  asset_allocation :: pyval
  sector_allocation :: pyval
  equity_aum :: pyval

type_synonym frame = "fund_row list"

definition NA :: pyval where
  "NA = PyStr ''N/A''"

subsection \<open>\<open>handle_missing_values\<close>\<close>

text \<open>\<open>Series.replace([np.nan, '', None], 'N/A')\<close> on one cell.\<close>

fun replace_missing :: "pyval \<Rightarrow> pyval" where
  "replace_missing PyNaN = NA"
| "replace_missing PyNone = NA"
| "replace_missing (PyStr s) = (if s = [] then NA else PyStr s)"
| "replace_missing v = v"

text \<open>The loop over \<open>columns_to_clean\<close>, applied to one row.\<close>

definition clean_columns :: "fund_row \<Rightarrow> fund_row" where
  "clean_columns r =
     r\<lparr> exit_load := replace_missing (exit_load r),
        rating := replace_missing (rating r),
        average_maturity := replace_missing (average_maturity r),
        yield_to_maturity := replace_missing (yield_to_maturity r) \<rparr>"

text \<open>\<open>df.loc[df['type'] == 'Equity', ['average_maturity', 'yield_to_maturity']] = 'N/A'\<close>.\<close>

definition equity_override :: "fund_row \<Rightarrow> fund_row" where
  "equity_override r =
     (if ftype r = PyStr ''Equity''
      then r\<lparr> average_maturity := NA, yield_to_maturity := NA \<rparr>
      else r)"

definition handle_missing_values :: "frame \<Rightarrow> frame" where
  "handle_missing_values df = map equity_override (map clean_columns df)"

subsection \<open>\<open>validate_data\<close>\<close>

datatype warning =
    NegativeValues string
  | EquityAumExceedsAum
  | UnrealisticReturns string "(pyval \<times> pyval) list"
  | InconsistentAllocation
  | DuplicateNames "pyval list"

text \<open>\<open>df[col].apply(lambda x: isinstance(x, (int, float)) and x < 0)\<close>.\<close>

definition is_negative :: "pyval \<Rightarrow> bool" where
  "is_negative x = (is_number x \<and> num_lt x (PyNum 0))"

definition negative_check :: "string \<Rightarrow> (fund_row \<Rightarrow> pyval) \<Rightarrow> frame \<Rightarrow> warning list" where
  "negative_check col sel df =
     (if list_ex (\<lambda>r. is_negative (sel r)) df then [NegativeValues col] else [])"

definition equity_aum_check :: "frame \<Rightarrow> warning list" where
  "equity_aum_check df =
     (let valid_rows = filter (\<lambda>r. is_number (equity_aum r) \<and> is_number (aum r)) df
      in if list_ex (\<lambda>r. num_gt (equity_aum r) (aum r)) valid_rows
         then [EquityAumExceedsAum] else [])"

definition is_unrealistic :: "pyval \<Rightarrow> bool" where
  "is_unrealistic x = (is_number x \<and> (num_gt x (PyNum 100) \<or> num_lt x (PyNum (- 100))))"

definition returns_check :: "string \<Rightarrow> (fund_row \<Rightarrow> pyval) \<Rightarrow> frame \<Rightarrow> warning list" where
  "returns_check col sel df =
     (let invalid = filter (\<lambda>r. is_unrealistic (sel r)) df
      in if invalid \<noteq> [] then [UnrealisticReturns col (map (\<lambda>r. (name r, sel r)) invalid)]
         else [])"

definition allocation_check :: "frame \<Rightarrow> warning list" where
  "allocation_check df =
     (let valid_rows = filter (\<lambda>r. is_number (debt_per r) \<and> is_number (equity_per r)) df;
          total_allocation = map (\<lambda>r. num_add (debt_per r) (equity_per r)) valid_rows
      in if list_ex (\<lambda>t. num_lt t (PyNum 95)) total_allocation
            \<or> list_ex (\<lambda>t. num_gt t (PyNum 105)) total_allocation
         then [InconsistentAllocation] else [])"

text \<open>\<open>Series.duplicated()\<close>: every occurrence of a value after its first one.\<close>

fun duplicated :: "'a list \<Rightarrow> 'a list \<Rightarrow> 'a list" where
  "duplicated seen [] = []"
| "duplicated seen (x # xs) =
     (if x \<in> set seen then x # duplicated seen xs else duplicated (x # seen) xs)"

definition duplicate_check :: "frame \<Rightarrow> warning list" where
  "duplicate_check df =
     (let dups = duplicated [] (map name df)
      in if dups \<noteq> [] then [DuplicateNames dups] else [])"

text \<open>
  \<open>validate_data\<close> returns the frame it was given; the warnings it logs on the way are
  the first component of the result, in the order they are logged.
\<close>

definition validate_data :: "frame \<Rightarrow> warning list \<times> frame" where
  "validate_data df =
     (negative_check ''aum'' aum df
        @ negative_check ''nav'' nav df
        @ negative_check ''minimum_investment'' minimum_investment df
        @ negative_check ''minimum_sip_investment'' minimum_sip_investment df
        @ negative_check ''equity_aum'' equity_aum df
        @ equity_aum_check df
        @ returns_check ''one_year_return'' one_year_return df
        @ returns_check ''three_year_return'' three_year_return df
        @ returns_check ''five_year_return'' five_year_return df
        @ allocation_check df
        @ duplicate_check df,
      df)"

section \<open>Pages of \<open>webscraping.py\<close>\<close>

text \<open>
  A fetched page is kept as what the scraper's BeautifulSoup queries return on it, in
  document order. \<open>fetch_page\<close> gives \<open>None\<close> on a network error or a non-2xx status
  and the page otherwise; the network is a function from the URL to that result.
\<close>

text \<open>
  An element found by \<open>find_all\<close>, with the text of the node that
  \<open>find_previous_sibling\<close> returns for it (\<open>None\<close> when there is no such sibling).
\<close>

record labelled =
  label_text :: "string option"
  value_text :: string

text \<open>
  A \<open>td\<close> of the holdings table: its text, and the text of its first
  \<open>div.pc543Links\<close> when it has one.
\<close>

record cell =
  cell_text :: string
  links_text :: "string option"

type_synonym row = "cell list"

text \<open>
  The table \<open>holdings101Table\<close>: the \<open>tr\<close> rows of its first \<open>tbody\<close> when it has
  one, and all its \<open>tr\<close> rows.
\<close>

record holdings =
  tbody_rows :: "row list option"
  tr_rows :: "row list"

text \<open>
  The \<open>a.pos-rel.f22Link\<close> around a fund card: the texts of its risk/type elements and
  of its return elements, and its \<open>href\<close> attribute.
\<close>

record anchor =
  risk_type_elements :: "string list"
  return_elements :: "string list"
  href :: "string option"

record card =
  card_text :: string
  card_parent :: "anchor option"

record page =
  fund_cards :: "card list"
  all_elements :: "labelled list"
  min_elements :: "labelled list"
  rating_elements :: "string list"
  exit_load_elements :: "string list"
  holdings_table :: "holdings option"

text \<open>\<open>not scheme_code or pd.isna(scheme_code)\<close>.\<close>

fun code_missing :: "pyval \<Rightarrow> bool" where
  "code_missing PyNone = True"
| "code_missing PyNaN = True"
| "code_missing (PyNum n) = (n = 0)"
| "code_missing (PyStr s) = (s = [])"

subsection \<open>\<open>extract_top_holdings\<close>\<close>

record holding =
  company :: string
  percentage :: pyfloat

text \<open>
  \<open>table.find('tbody').find_all('tr')[:5] if table.find('tbody') else
  table.find_all('tr')[1:6]\<close>.
\<close>

definition holding_rows :: "holdings \<Rightarrow> row list" where
  "holding_rows t =
     (case tbody_rows t of Some rs \<Rightarrow> take 5 rs | None \<Rightarrow> take 5 (drop 1 (tr_rows t)))"

text \<open>The body of the loop for a row with at least four columns.\<close>

definition holding_of :: "(string \<Rightarrow> pyfloat option) \<Rightarrow> row \<Rightarrow> holding" where
  "holding_of to_float cols =
     \<lparr> company =
         strip (case links_text (cols ! 0) of Some t \<Rightarrow> t | None \<Rightarrow> cell_text (cols ! 0)),
       percentage =
         (case to_float (remove_all ''%'' (strip (cell_text (cols ! 3)))) of
            Some v \<Rightarrow> v
          | None \<Rightarrow> Fin 0) \<rparr>"

fun holdings_loop :: "(string \<Rightarrow> pyfloat option) \<Rightarrow> row list \<Rightarrow> holding list" where
  "holdings_loop to_float [] = []"
| "holdings_loop to_float (cols # rows) =
     (if 4 \<le> length cols then holding_of to_float cols # holdings_loop to_float rows
      else holdings_loop to_float rows)"

definition extract_top_holdings ::
  "(string \<Rightarrow> pyfloat option) \<Rightarrow> (string \<Rightarrow> page option) \<Rightarrow> pyval \<Rightarrow> string \<Rightarrow> holding list"
where
  "extract_top_holdings to_float fetch_page scheme_code fund_link =
     (if code_missing scheme_code \<or> fund_link = [] then []
      else case fetch_page fund_link of
        None \<Rightarrow> []
      | Some soup \<Rightarrow>
          (case holdings_table soup of
             None \<Rightarrow> []
           | Some t \<Rightarrow> holdings_loop to_float (holding_rows t)))"

subsection \<open>\<open>extract_detailed_fund_data\<close>\<close>

text \<open>The rupee sign, U+20B9, in UTF-8.\<close>

definition rupee :: string where
  "rupee = [CHR 0xE2, CHR 0x82, CHR 0xB9]"

definition clean_amount :: "string \<Rightarrow> string" where
  "clean_amount t = remove_all '','' (remove_all rupee t)"

definition clean_aum :: "string \<Rightarrow> string" where
  "clean_aum t = remove_all ''Cr'' (remove_all '','' (remove_all rupee t))"

text \<open>
  The loops for \<open>aum\<close>, \<open>nav\<close>, \<open>minimum\<close> and \<open>minimum_sip\<close> have one shape: the
  first element whose label contains \<open>lbl\<close> and whose cleaned text converts gives the
  value; an element whose text does not convert is passed over; \<open>nan\<close> when the list is
  exhausted.
\<close>

fun scan_labelled ::
  "(string \<Rightarrow> pyfloat option) \<Rightarrow> string \<Rightarrow> (string \<Rightarrow> string) \<Rightarrow> labelled list \<Rightarrow> pyfloat"
where
  "scan_labelled to_float lbl clean [] = NaN"
| "scan_labelled to_float lbl clean (e # es) =
     (case label_text e of
        None \<Rightarrow> scan_labelled to_float lbl clean es
      | Some p \<Rightarrow>
          if contains lbl p
          then (case to_float (clean (strip (value_text e))) of
                  Some v \<Rightarrow> v
                | None \<Rightarrow> scan_labelled to_float lbl clean es)
          else scan_labelled to_float lbl clean es)"

text \<open>The rating loop; \<open>acc\<close> is the variable \<open>rating\<close>.\<close>

fun scan_rating :: "(string \<Rightarrow> pyfloat option) \<Rightarrow> pyfloat \<Rightarrow> string list \<Rightarrow> pyfloat" where
  "scan_rating to_float acc [] = acc"
| "scan_rating to_float acc (t # ts) =
     (if strip t = ''NA'' then scan_rating to_float NaN ts
      else case to_float (strip t) of
        Some v \<Rightarrow> v
      | None \<Rightarrow> scan_rating to_float acc ts)"

fun scan_exit_load :: "(string \<Rightarrow> pyfloat option) \<Rightarrow> string list \<Rightarrow> pyfloat" where
  "scan_exit_load to_float [] = NaN"
| "scan_exit_load to_float (t # ts) =
     (let text = strip t in
      if contains ''Exit load'' text then
        if contains ''No exit load'' text \<or> contains ''0%'' text then Fin 0
        else case search_percent text of
          None \<Rightarrow> scan_exit_load to_float ts
        | Some g \<Rightarrow>
            (case to_float g of Some v \<Rightarrow> v | None \<Rightarrow> scan_exit_load to_float ts)
      else scan_exit_load to_float ts)"

fun scan_expense_ratio :: "(string \<Rightarrow> pyfloat option) \<Rightarrow> string list \<Rightarrow> pyfloat" where
  "scan_expense_ratio to_float [] = NaN"
| "scan_expense_ratio to_float (t # ts) =
     (let text = strip t in
      if contains ''Expense ratio'' text then
        case search_percent text of
          None \<Rightarrow> scan_expense_ratio to_float ts
        | Some g \<Rightarrow>
            (case to_float g of Some v \<Rightarrow> v | None \<Rightarrow> scan_expense_ratio to_float ts)
      else scan_expense_ratio to_float ts)"

text \<open>The list that \<open>extract_detailed_fund_data\<close> returns, with its seven places named.\<close>

record detail =
  d_aum :: pyfloat
  d_nav :: pyfloat
  d_minimum :: pyfloat
  d_minimum_sip :: pyfloat
  d_rating :: pyfloat
  d_expense_ratio :: pyfloat
  d_exit_load :: pyfloat

definition extract_detailed_fund_data ::
  "(string \<Rightarrow> pyfloat option) \<Rightarrow> (string \<Rightarrow> page option) \<Rightarrow> string \<Rightarrow> detail"
where
  "extract_detailed_fund_data to_float fetch_page url =
     (case fetch_page url of
        None \<Rightarrow>
          \<lparr> d_aum = NaN, d_nav = NaN, d_minimum = NaN, d_minimum_sip = NaN,
            d_rating = NaN, d_expense_ratio = NaN, d_exit_load = NaN \<rparr>
      | Some soup \<Rightarrow>
          (let aum = scan_labelled to_float ''Fund size'' clean_aum (all_elements soup);
               nav = scan_labelled to_float ''NAV'' clean_amount (all_elements soup);
               minimum =
                 scan_labelled to_float ''Min. for 1st investment'' clean_amount
                   (min_elements soup);
               minimum_sip =
                 scan_labelled to_float ''Min. for SIP'' clean_amount (min_elements soup);
               minimum = (if isnan minimum then minimum_sip else minimum);
               rating = scan_rating to_float NaN (rating_elements soup);
               exit_load = scan_exit_load to_float (exit_load_elements soup);
               expense_ratio = scan_expense_ratio to_float (exit_load_elements soup)
           in \<lparr> d_aum = aum, d_nav = nav, d_minimum = minimum, d_minimum_sip = minimum_sip,
                d_rating = rating, d_expense_ratio = expense_ratio,
                d_exit_load = exit_load \<rparr>))"

text \<open>
  When a field finds no value: no element carries the label, or every element that
  carries it has a text that does not convert.
\<close>

definition no_value ::
  "(string \<Rightarrow> pyfloat option) \<Rightarrow> string \<Rightarrow> (string \<Rightarrow> string) \<Rightarrow> labelled list \<Rightarrow> bool"
where
  "no_value to_float lbl clean es =
     list_all (\<lambda>e. case label_text e of
                      None \<Rightarrow> True
                    | Some p \<Rightarrow>
                        contains lbl p \<longrightarrow> to_float (clean (strip (value_text e))) = None) es"

definition no_rating :: "(string \<Rightarrow> pyfloat option) \<Rightarrow> string list \<Rightarrow> bool" where
  "no_rating to_float ts =
     list_all (\<lambda>t. strip t = ''NA'' \<or> to_float (strip t) = None) ts"

text \<open>
  A paragraph gives no percentage when the regular expression finds none in it, or the
  group it finds does not convert.
\<close>

definition no_percent :: "(string \<Rightarrow> pyfloat option) \<Rightarrow> string \<Rightarrow> bool" where
  "no_percent to_float text =
     (case search_percent text of None \<Rightarrow> True | Some g \<Rightarrow> to_float g = None)"

definition no_expense_ratio :: "(string \<Rightarrow> pyfloat option) \<Rightarrow> string list \<Rightarrow> bool" where
  "no_expense_ratio to_float ts =
     list_all (\<lambda>t. contains ''Expense ratio'' (strip t) \<longrightarrow> no_percent to_float (strip t)) ts"

text \<open>
  For the exit load, a paragraph that mentions it gives no value when it has neither of
  the two zero markers and no percentage.
\<close>

definition no_exit_load :: "(string \<Rightarrow> pyfloat option) \<Rightarrow> string list \<Rightarrow> bool" where
  "no_exit_load to_float ts =
     list_all (\<lambda>t. contains ''Exit load'' (strip t) \<longrightarrow>
                    \<not> contains ''No exit load'' (strip t) \<and> \<not> contains ''0%'' (strip t)
                    \<and> no_percent to_float (strip t)) ts"

section \<open>Historical NAV\<close>

text \<open>A decoded JSON document, as \<open>response.json()\<close> returns it.\<close>

datatype json =
    JNull
  | JBool bool
  | JNum pyfloat
  | JStr string
  | JArr "json list"
  | JObj "(string \<times> json) list"

text \<open>
  What \<open>requests.get\<close>, \<open>raise_for_status\<close> and \<open>response.json()\<close> come to for one
  request: a \<open>RequestException\<close> from the first two, a \<open>ValueError\<close> from the third
  when the body is not JSON, or the decoded document.
\<close>

datatype 'a response = RequestFailed | NotJson | Json 'a

text \<open>What the scraper does to the outside world, in order.\<close>

datatype event =
    GetNav pyval int
  | ReadAmfiFeed pyval string string
  | GetStats pyval
  | Sleep int

text \<open>\<open>d.get(k, default)\<close> on a decoded object.\<close>

definition dict_get :: "(string \<times> 'a) list \<Rightarrow> string \<Rightarrow> 'a \<Rightarrow> 'a" where
  "dict_get kvs k dflt = (case map_of kvs k of Some v \<Rightarrow> v | None \<Rightarrow> dflt)"

text \<open>The truth value of a decoded document, as \<open>not nav_data\<close> tests it.\<close>

fun truthy :: "json \<Rightarrow> bool" where
  "truthy JNull = False"
| "truthy (JBool b) = b"
| "truthy (JNum NaN) = True"
| "truthy (JNum (Fin r)) = (r \<noteq> 0)"
| "truthy (JStr s) = (s \<noteq> [])"
| "truthy (JArr xs) = (xs \<noteq> [])"
| "truthy (JObj kvs) = (kvs \<noteq> [])"

text \<open>\<open>float(v)\<close> on a decoded value.\<close>

fun json_float :: "(string \<Rightarrow> pyfloat option) \<Rightarrow> json \<Rightarrow> exn + pyfloat" where
  "json_float to_float (JNum f) = Inr f"
| "json_float to_float (JBool b) = Inr (Fin (if b then 1 else 0))"
| "json_float to_float (JStr s) =
     (case to_float s of Some f \<Rightarrow> Inr f | None \<Rightarrow> Inl ValueError)"
| "json_float to_float _ = Inl TypeError"

text \<open>\<open>timestamp_ms / 1000\<close>.\<close>

fun millis_to_seconds :: "json \<Rightarrow> exn + pyfloat" where
  "millis_to_seconds (JNum NaN) = Inr NaN"
| "millis_to_seconds (JNum (Fin r)) = Inr (Fin (fl64 (r / 1000)))"
| "millis_to_seconds (JBool b) = Inr (Fin (fl64 ((if b then 1 else 0) / 1000)))"
| "millis_to_seconds _ = Inl TypeError"

record nav_point =
  point_date :: string
  point_nav :: pyfloat

text \<open>
  One entry of the loop. \<open>utc_date\<close> stands for
  \<open>datetime.utcfromtimestamp(t).strftime('%Y-%m-%d')\<close>, which gives the date or raises.
  The inner \<open>try\<close> passes over an entry on \<open>ValueError\<close> and \<open>TypeError\<close> (\<open>None\<close>
  here); any other exception leaves the loop.
\<close>

definition skip_entry :: "exn \<Rightarrow> exn + nav_point option" where
  "skip_entry e = (if e = ValueError \<or> e = TypeError then Inr None else Inl e)"

fun nav_entry ::
  "(string \<Rightarrow> pyfloat option) \<Rightarrow> (pyfloat \<Rightarrow> exn + string) \<Rightarrow> json \<Rightarrow> exn + nav_point option"
where
  "nav_entry to_float utc_date (JArr [ts, v]) =
     (case json_float to_float v of
        Inl e \<Rightarrow> skip_entry e
      | Inr nav_value \<Rightarrow>
          (case millis_to_seconds ts of
             Inl e \<Rightarrow> skip_entry e
           | Inr timestamp_s \<Rightarrow>
               (case utc_date timestamp_s of
                  Inl e \<Rightarrow> skip_entry e
                | Inr date_str \<Rightarrow> Inr (Some \<lparr> point_date = date_str, point_nav = nav_value \<rparr>))))"
| "nav_entry to_float utc_date _ = Inr None"

fun nav_loop ::
  "(string \<Rightarrow> pyfloat option) \<Rightarrow> (pyfloat \<Rightarrow> exn + string) \<Rightarrow> json list \<Rightarrow> exn + nav_point list"
where
  "nav_loop to_float utc_date [] = Inr []"
| "nav_loop to_float utc_date (entry # entries) =
     (case nav_entry to_float utc_date entry of
        Inl e \<Rightarrow> Inl e
      | Inr p \<Rightarrow>
          (case nav_loop to_float utc_date entries of
             Inl e \<Rightarrow> Inl e
           | Inr ps \<Rightarrow> Inr (case p of None \<Rightarrow> ps | Some q \<Rightarrow> q # ps)))"

text \<open>
  \<open>for entry in nav_data\<close> on a truthy value: a list gives its elements; the characters
  of a string and the keys of an object are strings, which the loop passes over; a
  number or \<open>True\<close> is not iterable.
\<close>

fun iterate :: "json \<Rightarrow> exn + json list" where
  "iterate (JArr xs) = Inr xs"
| "iterate (JStr s) = Inr (map (\<lambda>c. JStr [c]) s)"
| "iterate (JObj kvs) = Inr (map (\<lambda>kv. JStr (fst kv)) kvs)"
| "iterate _ = Inl TypeError"

text \<open>
  The body of the \<open>try\<close> block of \<open>extract_historical_nav\<close>, from the response on:
  \<open>Inl\<close> an exception it raises, \<open>Inr\<close> the list it returns.
\<close>

definition primary_nav ::
  "(string \<Rightarrow> pyfloat option) \<Rightarrow> (pyfloat \<Rightarrow> exn + string) \<Rightarrow> json response
     \<Rightarrow> exn + nav_point list"
where
  "primary_nav to_float utc_date resp =
     (case resp of
        RequestFailed \<Rightarrow> Inl RequestException
      | NotJson \<Rightarrow> Inl ValueError
      | Json data \<Rightarrow>
          (case data of
             JObj kvs \<Rightarrow>
               (case dict_get kvs ''folio'' (JObj []) of
                  JObj folio \<Rightarrow>
                    (let nav_data = dict_get folio ''data'' (JArr []) in
                     if \<not> truthy nav_data then Inr []
                     else case iterate nav_data of
                       Inl e \<Rightarrow> Inl e
                     | Inr entries \<Rightarrow> nav_loop to_float utc_date entries)
                | _ \<Rightarrow> Inl AttributeError)
           | _ \<Rightarrow> Inl AttributeError))"

subsection \<open>\<open>fetch_amfi_nav\<close>\<close>

text \<open>
  The \<open>try\<close> block of \<open>fetch_amfi_nav\<close> is one pandas pipeline over the bulk feed:
  read, filter by code and by dates, format. \<open>amfi\<close> is what that pipeline comes to for
  a code and a window: the formatted rows, or the exception it raises. The handler
  turns three classes of exception into the empty list.
\<close>

definition default_start_date :: string where
  "default_start_date = ''2024-05-05''"

definition default_end_date :: string where
  "default_end_date = ''2025-05-05''"

definition amfi_handled :: "exn \<Rightarrow> bool" where
  "amfi_handled e = (e = EmptyDataError \<or> e = RequestException \<or> e = ValueError)"

definition fetch_amfi_nav ::
  "(pyval \<Rightarrow> string \<Rightarrow> string \<Rightarrow> exn + nav_point list) \<Rightarrow> pyval \<Rightarrow> string \<Rightarrow> string
     \<Rightarrow> event list \<times> (exn + nav_point list)"
where
  "fetch_amfi_nav amfi scheme_code start_date end_date =
     ([ReadAmfiFeed scheme_code start_date end_date],
      case amfi scheme_code start_date end_date of
        Inr formatted_data \<Rightarrow> Inr formatted_data
      | Inl e \<Rightarrow> if amfi_handled e then Inr [] else Inl e)"

subsection \<open>\<open>extract_historical_nav\<close>\<close>

text \<open>The classes that the outer handler of \<open>extract_historical_nav\<close> catches.\<close>

definition nav_handled :: "exn \<Rightarrow> bool" where
  "nav_handled e = (e = RequestException \<or> e = ValueError \<or> e = KeyError)"

text \<open>
  \<open>api\<close> is the time-series endpoint: the response to the request for a code and a
  number of months. The result is the trace of requests and what the call returns or
  raises.
\<close>

definition extract_historical_nav ::
  "(string \<Rightarrow> pyfloat option) \<Rightarrow> (pyfloat \<Rightarrow> exn + string)
     \<Rightarrow> (pyval \<Rightarrow> int \<Rightarrow> json response)
     \<Rightarrow> (pyval \<Rightarrow> string \<Rightarrow> string \<Rightarrow> exn + nav_point list)
     \<Rightarrow> pyval \<Rightarrow> int \<Rightarrow> event list \<times> (exn + nav_point list)"
where
  "extract_historical_nav to_float utc_date api amfi scheme_code months =
     (if code_missing scheme_code then ([], Inr [])
      else case primary_nav to_float utc_date (api scheme_code months) of
        Inr formatted_data \<Rightarrow> ([GetNav scheme_code months], Inr formatted_data)
      | Inl e \<Rightarrow>
          if nav_handled e
          then (let (evs, r) = fetch_amfi_nav amfi scheme_code default_start_date default_end_date
                in (GetNav scheme_code months # evs, r))
          else ([GetNav scheme_code months], Inl e))"

section \<open>Portfolio statistics\<close>

text \<open>
  The decoded payload of the statistics endpoint. Each key is absent (\<open>None\<close>) or
  present; the six statistics and \<open>aum\<close> hold scalars, \<open>asset_allocation\<close> and
  \<open>equity_sector_per\<close> hold objects of scalars, in the order of the document.
\<close>

record payload =
  j_pe :: "pyval option"
  j_pb :: "pyval option"
  j_debt_per :: "pyval option"
  j_equity_per :: "pyval option"
  j_average_maturity :: "pyval option"
  j_yield_to_maturity :: "pyval option"
  j_asset_allocation :: "(string \<times> pyval) list option"
  j_aum :: "pyval option"
  j_equity_sector_per :: "(string \<times> pyval) list option"

text \<open>A body that decodes to something other than an object has no \<open>get\<close>.\<close>

datatype stats_body = NotAnObject | Object payload

record allocation =
  alloc_equity :: pyfloat
  alloc_debt :: pyfloat
  alloc_cash :: pyfloat
  alloc_total_aum :: pyfloat

record sector_entry =
  sector :: string
  sector_percentage :: pyfloat

record stats =
  s_pe :: pyval
  s_pb :: pyval
  s_debt_per :: pyval
  s_equity_per :: pyval
  s_average_maturity :: pyval
  s_yield_to_maturity :: pyval
  s_asset_allocation :: allocation
  s_sector_allocation :: "sector_entry list"
  s_equity_aum :: pyfloat

text \<open>\<open>data.get(key, np.nan)\<close>.\<close>

definition get_or_nan :: "pyval option \<Rightarrow> pyval" where
  "get_or_nan v = (case v of None \<Rightarrow> PyNaN | Some x \<Rightarrow> x)"

text \<open>\<open>float(x)\<close> on a scalar.\<close>

fun py_float :: "(string \<Rightarrow> pyfloat option) \<Rightarrow> pyval \<Rightarrow> exn + pyfloat" where
  "py_float to_float PyNone = Inl TypeError"
| "py_float to_float PyNaN = Inr NaN"
| "py_float to_float (PyNum r) = Inr (Fin (fl64 r))"
| "py_float to_float (PyStr s) =
     (case to_float s of Some f \<Rightarrow> Inr f | None \<Rightarrow> Inl ValueError)"

subsection \<open>The arithmetic of the Hybrid rule\<close>

text \<open>\<open>a + b\<close>, \<open>a > 0\<close>, \<open>a / b\<close> and \<open>a * 100\<close> on scalars.\<close>

fun py_add :: "pyval \<Rightarrow> pyval \<Rightarrow> exn + pyval" where
  "py_add (PyNum a) (PyNum b) = Inr (PyNum (fl64 (a + b)))"
| "py_add (PyNum a) PyNaN = Inr PyNaN"
| "py_add PyNaN (PyNum b) = Inr PyNaN"
| "py_add PyNaN PyNaN = Inr PyNaN"
| "py_add (PyStr a) (PyStr b) = Inr (PyStr (a @ b))"
| "py_add _ _ = Inl TypeError"

fun py_positive :: "pyval \<Rightarrow> exn + bool" where
  "py_positive (PyNum a) = Inr (0 < a)"
| "py_positive PyNaN = Inr False"
| "py_positive _ = Inl TypeError"

fun py_div :: "pyval \<Rightarrow> pyval \<Rightarrow> exn + pyval" where
  "py_div (PyNum a) (PyNum b) =
     (if b = 0 then Inl ZeroDivisionError else Inr (PyNum (fl64 (a / b))))"
| "py_div (PyNum a) PyNaN = Inr PyNaN"
| "py_div PyNaN (PyNum b) = Inr PyNaN"
| "py_div PyNaN PyNaN = Inr PyNaN"
| "py_div _ _ = Inl TypeError"

fun py_times_100 :: "pyval \<Rightarrow> exn + pyval" where
  "py_times_100 (PyNum a) = Inr (PyNum (fl64 (a * 100)))"
| "py_times_100 PyNaN = Inr PyNaN"
| "py_times_100 (PyStr s) = Inr (PyStr (concat (replicate 100 s)))"
| "py_times_100 PyNone = Inl TypeError"

text \<open>\<open>stats[key] if not pd.isna(stats[key]) else 0\<close>.\<close>

definition or_zero :: "pyval \<Rightarrow> pyval" where
  "or_zero v = (if isna v then PyNum 0 else v)"

text \<open>\<open>(x / total) * 100\<close>.\<close>

definition share_of :: "pyval \<Rightarrow> pyval \<Rightarrow> exn + pyval" where
  "share_of x tot =
     (case py_div x tot of Inl e \<Rightarrow> Inl e | Inr q \<Rightarrow> py_times_100 q)"

text \<open>
  The Hybrid branch: from the raw \<open>debt_per\<close> and \<open>equity_per\<close> to the pair that is
  stored, or the exception raised on the way.
\<close>

definition hybrid_rule :: "pyval \<Rightarrow> pyval \<Rightarrow> exn + (pyval \<times> pyval)" where
  "hybrid_rule raw_debt raw_equity =
     (let debt = or_zero raw_debt; equity = or_zero raw_equity in
      case py_add debt equity of
        Inl e \<Rightarrow> Inl e
      | Inr tot \<Rightarrow>
          (case py_positive tot of
             Inl e \<Rightarrow> Inl e
           | Inr True \<Rightarrow>
               (case share_of debt tot of
                  Inl e \<Rightarrow> Inl e
                | Inr d \<Rightarrow>
                    (case share_of equity tot of
                       Inl e \<Rightarrow> Inl e
                     | Inr q \<Rightarrow> Inr (d, q)))
           | Inr False \<Rightarrow> Inr (PyNaN, PyNaN)))"

subsection \<open>Sector allocation\<close>

text \<open>The loop over \<open>sector_breakdown.items()\<close>.\<close>

fun sector_loop ::
  "(string \<Rightarrow> pyfloat option) \<Rightarrow> (string \<times> pyval) list \<Rightarrow> exn + sector_entry list"
where
  "sector_loop to_float [] = Inr []"
| "sector_loop to_float ((sector_name, p) # items) =
     (case py_float to_float p of
        Inl e \<Rightarrow> Inl e
      | Inr f \<Rightarrow>
          (case sector_loop to_float items of
             Inl e \<Rightarrow> Inl e
           | Inr entries \<Rightarrow> Inr (\<lparr> sector = sector_name, sector_percentage = f \<rparr> # entries)))"

text \<open>
  \<open>sorted(xs, key=lambda x: x['percentage'], reverse=True)\<close>. Python reverses the
  list, sorts it stably in ascending order with \<open><\<close> on the keys, and reverses the
  result. The ascending sort is written as an insertion sort that places an element
  after the elements it is not less than; on keys without \<open>nan\<close> every stable sort
  gives the same list.
\<close>

fun insert_sorted :: "sector_entry \<Rightarrow> sector_entry list \<Rightarrow> sector_entry list" where
  "insert_sorted x [] = [x]"
| "insert_sorted x (y # ys) =
     (if flt_lt (sector_percentage x) (sector_percentage y) then x # y # ys
      else y # insert_sorted x ys)"

definition sorted_asc :: "sector_entry list \<Rightarrow> sector_entry list" where
  "sorted_asc xs = foldl (\<lambda>acc x. insert_sorted x acc) [] xs"

definition sorted_desc :: "sector_entry list \<Rightarrow> sector_entry list" where
  "sorted_desc xs = rev (sorted_asc (rev xs))"

subsection \<open>One attempt\<close>

text \<open>The record returned when no statistics are available.\<close>

definition unavailable_stats :: stats where
  "unavailable_stats =
     \<lparr> s_pe = PyNaN, s_pb = PyNaN, s_debt_per = PyNaN, s_equity_per = PyNaN,
       s_average_maturity = PyNaN, s_yield_to_maturity = PyNaN,
       s_asset_allocation =
         \<lparr> alloc_equity = NaN, alloc_debt = NaN, alloc_cash = NaN, alloc_total_aum = NaN \<rparr>,
       s_sector_allocation = [],
       s_equity_aum = NaN \<rparr>"

text \<open>The statistics as read from the payload, with the rule for Commodities applied.\<close>

definition raw_debt_per :: "payload \<Rightarrow> string \<Rightarrow> pyval" where
  "raw_debt_per data fund_type =
     (if fund_type = ''Commodities'' then PyNum 0 else get_or_nan (j_debt_per data))"

definition raw_equity_per :: "payload \<Rightarrow> string \<Rightarrow> pyval" where
  "raw_equity_per data fund_type =
     (if fund_type = ''Commodities'' then PyNum 0 else get_or_nan (j_equity_per data))"

text \<open>
  The asset allocation: four conversions, in the order of the dictionary display; the
  first that raises ends the attempt.
\<close>

definition asset_allocation_of ::
  "(string \<Rightarrow> pyfloat option) \<Rightarrow> payload \<Rightarrow> exn + allocation"
where
  "asset_allocation_of to_float data =
     (let asset_breakdown = (case j_asset_allocation data of None \<Rightarrow> [] | Some kvs \<Rightarrow> kvs) in
      case py_float to_float (dict_get asset_breakdown ''equity'' (PyNum 0)) of
        Inl e \<Rightarrow> Inl e
      | Inr eq \<Rightarrow>
          (case py_float to_float (dict_get asset_breakdown ''debt'' (PyNum 0)) of
             Inl e \<Rightarrow> Inl e
           | Inr de \<Rightarrow>
               (case py_float to_float (dict_get asset_breakdown ''cash'' (PyNum 0)) of
                  Inl e \<Rightarrow> Inl e
                | Inr ca \<Rightarrow>
                    (case py_float to_float (get_or_nan (j_aum data)) of
                       Inl e \<Rightarrow> Inl e
                     | Inr au \<Rightarrow>
                         Inr \<lparr> alloc_equity = eq, alloc_debt = de, alloc_cash = ca,
                               alloc_total_aum = au \<rparr>))))"

text \<open>The top four sectors.\<close>

definition sector_allocation_of ::
  "(string \<Rightarrow> pyfloat option) \<Rightarrow> payload \<Rightarrow> exn + sector_entry list"
where
  "sector_allocation_of to_float data =
     (let sector_breakdown = (case j_equity_sector_per data of None \<Rightarrow> [] | Some kvs \<Rightarrow> kvs) in
      case sector_loop to_float sector_breakdown of
        Inl e \<Rightarrow> Inl e
      | Inr entries \<Rightarrow> Inr (take 4 (sorted_desc entries)))"

definition equity_aum_of :: "allocation \<Rightarrow> pyfloat" where
  "equity_aum_of a =
     (if \<not> isnan (alloc_total_aum a)
      then flt_mul (flt_div_const (alloc_equity a) 100) (alloc_total_aum a)
      else NaN)"

text \<open>
  The body of the \<open>try\<close> block from the decoded payload on: the statistics, or the
  exception raised.
\<close>

definition stats_of_payload ::
  "(string \<Rightarrow> pyfloat option) \<Rightarrow> payload \<Rightarrow> string \<Rightarrow> exn + stats"
where
  "stats_of_payload to_float data fund_type =
     (case (if fund_type = ''Hybrid''
            then hybrid_rule (raw_debt_per data fund_type) (raw_equity_per data fund_type)
            else Inr (raw_debt_per data fund_type, raw_equity_per data fund_type)) of
        Inl e \<Rightarrow> Inl e
      | Inr (debt, equity) \<Rightarrow>
          (case asset_allocation_of to_float data of
             Inl e \<Rightarrow> Inl e
           | Inr assets \<Rightarrow>
               (case sector_allocation_of to_float data of
                  Inl e \<Rightarrow> Inl e
                | Inr sectors \<Rightarrow>
                    Inr \<lparr> s_pe =
                            (if fund_type = ''Commodities'' then PyNaN
                             else get_or_nan (j_pe data)),
                          s_pb =
                            (if fund_type = ''Commodities'' then PyNaN
                             else get_or_nan (j_pb data)),
                          s_debt_per = debt,
                          s_equity_per = equity,
                          s_average_maturity =
                            (if fund_type \<noteq> ''Hybrid'' then PyNaN
                             else get_or_nan (j_average_maturity data)),
                          s_yield_to_maturity =
                            (if fund_type \<noteq> ''Hybrid'' then PyNaN
                             else get_or_nan (j_yield_to_maturity data)),
                          s_asset_allocation = assets,
                          s_sector_allocation = sectors,
                          s_equity_aum = equity_aum_of assets \<rparr>)))"

text \<open>One pass through the \<open>try\<close> block, from the response on.\<close>

definition stats_attempt ::
  "(string \<Rightarrow> pyfloat option) \<Rightarrow> stats_body response \<Rightarrow> string \<Rightarrow> exn + stats"
where
  "stats_attempt to_float resp fund_type =
     (case resp of
        RequestFailed \<Rightarrow> Inl RequestException
      | NotJson \<Rightarrow> Inl ValueError
      | Json NotAnObject \<Rightarrow> Inl AttributeError
      | Json (Object data) \<Rightarrow> stats_of_payload to_float data fund_type)"

subsection \<open>\<open>extract_portfolio_stats\<close>\<close>

text \<open>The classes that the handler of the retry loop catches.\<close>

definition stats_handled :: "exn \<Rightarrow> bool" where
  "stats_handled e = (e = ValueError \<or> e = KeyError \<or> e = RequestException)"

text \<open>
  \<open>for attempt in range(retries)\<close>, from \<open>attempt\<close> on. \<open>responses n\<close> is what the
  \<open>n\<close>-th request comes to. The result is the trace and what the function returns
  (\<open>None\<close> when the loop ends without a \<open>return\<close>) or raises.
\<close>

function retry_loop ::
  "(string \<Rightarrow> pyfloat option) \<Rightarrow> (nat \<Rightarrow> stats_body response) \<Rightarrow> pyval \<Rightarrow> string
     \<Rightarrow> nat \<Rightarrow> int \<Rightarrow> nat \<Rightarrow> event list \<times> (exn + stats option)"
where
  "retry_loop to_float responses scheme_code fund_type retries retry_delay attempt =
     (if attempt < retries then
        case stats_attempt to_float (responses attempt) fund_type of
          Inr st \<Rightarrow> ([GetStats scheme_code, Sleep 1], Inr (Some st))
        | Inl e \<Rightarrow>
            if stats_handled e then
              if attempt + 1 < retries then
                (let (evs, r) =
                       retry_loop to_float responses scheme_code fund_type retries retry_delay
                         (attempt + 1)
                 in (GetStats scheme_code # Sleep retry_delay # evs, r))
              else ([GetStats scheme_code], Inr (Some unavailable_stats))
            else ([GetStats scheme_code], Inl e)
      else ([], Inr None))"
  by pat_completeness auto
termination
  by (relation "measure (\<lambda>(to_float, responses, scheme_code, fund_type, retries, retry_delay,
                             attempt). retries - attempt)") auto

definition extract_portfolio_stats ::
  "(string \<Rightarrow> pyfloat option) \<Rightarrow> (nat \<Rightarrow> stats_body response) \<Rightarrow> pyval \<Rightarrow> string
     \<Rightarrow> nat \<Rightarrow> int \<Rightarrow> event list \<times> (exn + stats option)"
where
  "extract_portfolio_stats to_float responses scheme_code fund_type retries retry_delay =
     (if code_missing scheme_code then ([], Inr (Some unavailable_stats))
      else retry_loop to_float responses scheme_code fund_type retries retry_delay 0)"

text \<open>The defaults of the two keyword parameters.\<close>

definition default_retries :: nat where
  "default_retries = 3"

definition default_retry_delay :: int where
  "default_retry_delay = 5"

definition sample_row :: fund_row where
  "sample_row =
     \<lparr> name = PyStr ''Fund A'', aum = PyNum (- 5), nav = PyNum 12, exit_load = PyNaN,
       rating = PyNum 4, minimum_investment = PyNum 500, minimum_sip_investment = PyNum 100,
       pe = PyNum 20, pb = PyNum 3, debt_per = PyNum 0, equity_per = PyNum 100,
       average_maturity = PyNum 7, yield_to_maturity = PyStr ''6.5'',
       risk = PyStr ''High'', ftype = PyStr ''Equity'',
       one_year_return = PyNum 10, three_year_return = PyNum 12, five_year_return = PyNaN,
       link = PyStr ''https://groww.in/mutual-funds/fund-a'',
       historical_nav = PyStr ''[]'', top_holdings = PyStr ''[]'',
       asset_allocation = PyStr ''{}'', sector_allocation = PyStr ''[]'',
       equity_aum = PyNum 3 \<rparr>"

subsection \<open>Sample pages\<close>

text \<open>
  A holdings table of three rows: one with a percentage, one whose percentage cell reads
  \<open>N/A\<close>, and one with two columns only.
\<close>

definition plain_cell :: "string \<Rightarrow> cell" where
  "plain_cell t = \<lparr> cell_text = t, links_text = None \<rparr>"

definition sample_holdings :: holdings where
  "sample_holdings =
     \<lparr> tbody_rows = Some
         [ [\<lparr> cell_text = '' HDFC Bank '', links_text = Some ''HDFC Bank'' \<rparr>,
            plain_cell ''Financial'', plain_cell ''Equity'', plain_cell '' 9.5% ''],
           [plain_cell ''Treps'', plain_cell ''Others'', plain_cell ''Cash'', plain_cell ''N/A''],
           [plain_cell ''Total'', plain_cell ''100%''] ],
       tr_rows = [] \<rparr>"

text \<open>
  A detail page on which the first-investment minimum is absent and the SIP minimum
  reads 500 rupees; the fund size does not convert, the rating is \<open>NA\<close>, and the
  paragraphs carry no percentage.
\<close>

definition sample_detail_page :: page where
  "sample_detail_page =
     \<lparr> fund_cards = [],
       all_elements =
         [\<lparr> label_text = Some ''Fund size'', value_text = ''--'' \<rparr>,
          \<lparr> label_text = Some ''Min. for SIP'', value_text = rupee @ ''500'' \<rparr>],
       min_elements =
         [\<lparr> label_text = Some ''Min. for SIP'', value_text = rupee @ ''500'' \<rparr>],
       rating_elements = [''NA''],
       exit_load_elements = [''Exit load of 1% if redeemed within 1 year'', ''Expense ratio: NA''],
       holdings_table = Some sample_holdings \<rparr>"

definition sample_link :: string where
  "sample_link = ''https://groww.in/mutual-funds/fund-a-direct-growth''"

definition sample_fetch :: "string \<Rightarrow> page option" where
  "sample_fetch url = (if url = sample_link then Some sample_detail_page else None)"

definition unparsable_row :: row where
  "unparsable_row =
     [plain_cell ''Treps'', plain_cell ''Others'', plain_cell ''Cash'', plain_cell ''N/A'']"

text \<open>A detail page on which every label is absent or carries a text that does not convert.\<close>

definition sample_blank_page :: page where
  "sample_blank_page =
     \<lparr> fund_cards = [],
       all_elements =
         [\<lparr> label_text = Some ''Fund size'', value_text = ''--'' \<rparr>,
          \<lparr> label_text = Some ''NAV: 01 Jan'', value_text = ''n/a'' \<rparr>,
          \<lparr> label_text = None, value_text = ''12.5'' \<rparr>],
       min_elements =
         [\<lparr> label_text = Some ''Min. for SIP'', value_text = ''Not allowed'' \<rparr>],
       rating_elements = [''NA'', ''--''],
       exit_load_elements = [''Exit load of 1% if redeemed within 1 year'', ''Expense ratio: NA''],
       holdings_table = None \<rparr>"

definition blank_link :: string where
  "blank_link = ''https://groww.in/mutual-funds/fund-b''"

definition blank_fetch :: "string \<Rightarrow> page option" where
  "blank_fetch url = (if url = blank_link then Some sample_blank_page else None)"

subsection \<open>Sample NAV sources\<close>

text \<open>
  A time-series endpoint that answers with an empty list for scheme 12345 and fails for
  every other scheme, and a bulk feed that has one row for every scheme.
\<close>

definition sample_code :: pyval where
  "sample_code = PyStr ''12345''"

definition empty_nav_api :: "pyval \<Rightarrow> int \<Rightarrow> json response" where
  "empty_nav_api scheme_code months =
     (if scheme_code = sample_code
      then Json (JObj [(''folio'', JObj [(''data'', JArr [])])])
      else RequestFailed)"

definition one_row_amfi :: "pyval \<Rightarrow> string \<Rightarrow> string \<Rightarrow> exn + nav_point list" where
  "one_row_amfi scheme_code start_date end_date =
     Inr [\<lparr> point_date = ''2025-01-02'', point_nav = Fin 101 \<rparr>]"

text \<open>A stand-in for the date conversion, which the examples do not reach.\<close>

definition epoch_date :: "pyfloat \<Rightarrow> exn + string" where
  "epoch_date t = (case t of NaN \<Rightarrow> Inl ValueError | Fin _ \<Rightarrow> Inr ''1970-01-01'')"

section \<open>Properties of the normalizer\<close>

lemma equity_override_equity:
  "ftype r = PyStr ''Equity'' \<Longrightarrow>
     average_maturity (equity_override r) = NA \<and> yield_to_maturity (equity_override r) = NA"
  by (simp add: equity_override_def)

lemma clean_columns_ftype: "ftype (clean_columns r) = ftype r"
  by (simp add: clean_columns_def)

lemma equity_override_ftype: "ftype (equity_override r) = ftype r"
  by (simp add: equity_override_def)

lemma handle_missing_values_length: "length (handle_missing_values df) = length df"
  by (simp add: handle_missing_values_def)

lemma handle_missing_values_ftype:
  "i < length df \<Longrightarrow> ftype (handle_missing_values df ! i) = ftype (df ! i)"
  by (simp add: handle_missing_values_def equity_override_ftype clean_columns_ftype)

text \<open>
  C5. Every row of the fund table whose \<open>type\<close> is \<open>Equity\<close> leaves
  \<open>handle_missing_values\<close> with \<open>average_maturity\<close> and \<open>yield_to_maturity\<close> equal to
  the marker \<open>N/A\<close>, whatever the two columns held on input. Rows keep their position
  and their \<open>type\<close>, so the rows in question are those at the indices \<open>i\<close> where the input
  has \<open>type = Equity\<close>.
\<close>

theorem equity_rows_maturity_yield_NA:
  assumes "i < length df" and "ftype (df ! i) = PyStr ''Equity''"
  shows "average_maturity (handle_missing_values df ! i) = NA
       \<and> yield_to_maturity (handle_missing_values df ! i) = NA
       \<and> ftype (handle_missing_values df ! i) = PyStr ''Equity''
       \<and> length (handle_missing_values df) = length df"
proof -
  have t: "ftype (clean_columns (df ! i)) = PyStr ''Equity''"
    using assms(2) by (simp add: clean_columns_ftype)
  have "handle_missing_values df ! i = equity_override (clean_columns (df ! i))"
    using assms(1) by (simp add: handle_missing_values_def)
  then show ?thesis
    using equity_override_equity [OF t] t
    by (simp add: equity_override_ftype handle_missing_values_length)
qed

theorem equity_rows_maturity_yield_NA_witness:
  "average_maturity sample_row = PyNum 7
   \<and> yield_to_maturity sample_row = PyStr ''6.5''
   \<and> average_maturity (handle_missing_values [sample_row] ! 0) = NA
   \<and> yield_to_maturity (handle_missing_values [sample_row] ! 0) = NA"
proof -
  have h1: "0 < length [sample_row]" by simp
  have h2: "ftype ([sample_row] ! 0) = PyStr ''Equity''" by (simp add: sample_row_def)
  show ?thesis
    using equity_rows_maturity_yield_NA [OF h1 h2] by (simp add: sample_row_def)
qed

text \<open>
  C8. \<open>validate_data\<close> hands back the frame it received, row for row and cell for cell:
  no row is dropped or rejected and no cell is rewritten; what the checks find goes to
  the log only.
\<close>

theorem validate_data_frame_unchanged:
  "snd (validate_data df) = df"
  by (simp add: validate_data_def)

lemma validate_data_negative_aum_warns:
  "validate_data [sample_row] = ([NegativeValues ''aum'', EquityAumExceedsAum], [sample_row])"
  by code_simp

section \<open>Properties of the detail extraction\<close>

lemma holdings_loop_eq:
  "holdings_loop to_float rows = map (holding_of to_float) (filter (\<lambda>r. 4 \<le> length r) rows)"
  by (induction rows) simp_all

text \<open>
  C10. When the holdings table is reached, every one of the (at most five) rows taken
  from it that has at least four columns gives a holding, in order. A row of that kind
  whose percentage cell does not convert is among them with percentage \<open>0.0\<close>: it is
  not skipped, and its percentage is the number zero rather than \<open>nan\<close>.
\<close>

theorem unparsable_percentage_gives_zero_holding:
  assumes "\<not> code_missing scheme_code" and "fund_link \<noteq> []"
    and "fetch_page fund_link = Some soup" and "holdings_table soup = Some t"
    and "cols \<in> set (holding_rows t)" and "4 \<le> length cols"
    and "to_float (remove_all ''%'' (strip (cell_text (cols ! 3)))) = None"
  shows "extract_top_holdings to_float fetch_page scheme_code fund_link
           = map (holding_of to_float) (filter (\<lambda>r. 4 \<le> length r) (holding_rows t))
       \<and> holding_of to_float cols
           \<in> set (extract_top_holdings to_float fetch_page scheme_code fund_link)
       \<and> percentage (holding_of to_float cols) = Fin 0"
proof -
  have eq: "extract_top_holdings to_float fetch_page scheme_code fund_link
              = map (holding_of to_float) (filter (\<lambda>r. 4 \<le> length r) (holding_rows t))"
    using assms(1-4) by (simp add: extract_top_holdings_def holdings_loop_eq)
  have "cols \<in> set (filter (\<lambda>r. 4 \<le> length r) (holding_rows t))"
    using assms(5,6) by simp
  then have "holding_of to_float cols
               \<in> set (map (holding_of to_float) (filter (\<lambda>r. 4 \<le> length r) (holding_rows t)))"
    by simp
  moreover have "percentage (holding_of to_float cols) = Fin 0"
    using assms(7) by (simp add: holding_of_def)
  ultimately show ?thesis using eq by simp
qed

theorem unparsable_percentage_gives_zero_holding_witness:
  "unparsable_row \<in> set (holding_rows sample_holdings)
   \<and> decimal_float (remove_all ''%'' (strip (cell_text (unparsable_row ! 3)))) = None
   \<and> extract_top_holdings decimal_float sample_fetch (PyStr ''111'') sample_link
       = [\<lparr> company = ''HDFC Bank'', percentage = Fin (19 / 2) \<rparr>,
          \<lparr> company = ''Treps'', percentage = Fin 0 \<rparr>]
   \<and> holding_of decimal_float unparsable_row = \<lparr> company = ''Treps'', percentage = Fin 0 \<rparr>"
proof -
  have h1: "\<not> code_missing (PyStr ''111'')" by simp
  have h2: "sample_link \<noteq> []" by (simp add: sample_link_def)
  have h3: "sample_fetch sample_link = Some sample_detail_page" by (simp add: sample_fetch_def)
  have h4: "holdings_table sample_detail_page = Some sample_holdings"
    by (simp add: sample_detail_page_def)
  have h5: "unparsable_row \<in> set (holding_rows sample_holdings)"
    by (simp add: holding_rows_def sample_holdings_def unparsable_row_def)
  have h6: "4 \<le> length unparsable_row" by (simp add: unparsable_row_def)
  have h7: "decimal_float (remove_all ''%'' (strip (cell_text (unparsable_row ! 3)))) = None"
    by code_simp
  have e: "map (holding_of decimal_float)
             (filter (\<lambda>r. 4 \<le> length r) (holding_rows sample_holdings))
           = [\<lparr> company = ''HDFC Bank'', percentage = Fin (19 / 2) \<rparr>,
              \<lparr> company = ''Treps'', percentage = Fin 0 \<rparr>]"
    by code_simp
  have c: "holding_of decimal_float unparsable_row
             = \<lparr> company = ''Treps'', percentage = Fin 0 \<rparr>"
    by code_simp
  show ?thesis
    using unparsable_percentage_gives_zero_holding
            [where to_float = decimal_float and fetch_page = sample_fetch
               and cols = unparsable_row, OF h1 h2 h3 h4 h5 h6 h7] h5 h7 e c
    by simp
qed

lemma scan_labelled_no_value:
  "no_value to_float lbl clean es \<Longrightarrow> scan_labelled to_float lbl clean es = NaN"
  by (induction es) (auto simp: no_value_def split: option.splits)

lemma scan_rating_no_rating:
  "no_rating to_float ts \<Longrightarrow> scan_rating to_float NaN ts = NaN"
  by (induction ts) (auto simp: no_rating_def split: option.splits)

lemma scan_expense_ratio_none:
  "no_expense_ratio to_float ts \<Longrightarrow> scan_expense_ratio to_float ts = NaN"
  by (induction ts)
     (auto simp: no_expense_ratio_def no_percent_def Let_def split: option.splits)

lemma scan_exit_load_none:
  "no_exit_load to_float ts \<Longrightarrow> scan_exit_load to_float ts = NaN"
  by (induction ts)
     (auto simp: no_exit_load_def no_percent_def Let_def split: option.splits)

lemma fetch_failure_all_nan:
  "fetch_page url = None \<Longrightarrow>
     extract_detailed_fund_data to_float fetch_page url
       = \<lparr> d_aum = NaN, d_nav = NaN, d_minimum = NaN, d_minimum_sip = NaN,
           d_rating = NaN, d_expense_ratio = NaN, d_exit_load = NaN \<rparr>"
  by (simp add: extract_detailed_fund_data_def)

text \<open>
  C3, as the code has it. On a fetched detail page, each of \<open>aum\<close>, \<open>nav\<close>,
  \<open>minimum_sip\<close>, \<open>rating\<close>, \<open>expense_ratio\<close> and \<open>exit_load\<close> is \<open>nan\<close> whenever
  its own label is not found or every text found under it fails to convert, whatever the
  other fields hold. The first-investment minimum is the exception: when it finds no
  value of its own it takes the value of \<open>minimum_sip\<close>, and is \<open>nan\<close> only when that
  is.
\<close>

theorem unavailable_detail_fields:
  assumes "fetch_page url = Some soup"
  shows "(no_value to_float ''Fund size'' clean_aum (all_elements soup) \<longrightarrow>
            d_aum (extract_detailed_fund_data to_float fetch_page url) = NaN)
       \<and> (no_value to_float ''NAV'' clean_amount (all_elements soup) \<longrightarrow>
            d_nav (extract_detailed_fund_data to_float fetch_page url) = NaN)
       \<and> (no_value to_float ''Min. for SIP'' clean_amount (min_elements soup) \<longrightarrow>
            d_minimum_sip (extract_detailed_fund_data to_float fetch_page url) = NaN)
       \<and> (no_value to_float ''Min. for 1st investment'' clean_amount (min_elements soup) \<longrightarrow>
            d_minimum (extract_detailed_fund_data to_float fetch_page url)
              = d_minimum_sip (extract_detailed_fund_data to_float fetch_page url))
       \<and> (no_rating to_float (rating_elements soup) \<longrightarrow>
            d_rating (extract_detailed_fund_data to_float fetch_page url) = NaN)
       \<and> (no_expense_ratio to_float (exit_load_elements soup) \<longrightarrow>
            d_expense_ratio (extract_detailed_fund_data to_float fetch_page url) = NaN)
       \<and> (no_exit_load to_float (exit_load_elements soup) \<longrightarrow>
            d_exit_load (extract_detailed_fund_data to_float fetch_page url) = NaN)"
  using assms
  by (simp add: extract_detailed_fund_data_def Let_def scan_labelled_no_value
      scan_rating_no_rating scan_expense_ratio_none scan_exit_load_none)

theorem unavailable_detail_fields_witness:
  "no_value decimal_float ''Fund size'' clean_aum (all_elements sample_blank_page)
   \<and> no_value decimal_float ''NAV'' clean_amount (all_elements sample_blank_page)
   \<and> no_value decimal_float ''Min. for SIP'' clean_amount (min_elements sample_blank_page)
   \<and> no_value decimal_float ''Min. for 1st investment'' clean_amount
        (min_elements sample_blank_page)
   \<and> no_rating decimal_float (rating_elements sample_blank_page)
   \<and> no_expense_ratio decimal_float (exit_load_elements sample_blank_page)
   \<and> no_exit_load decimal_float (exit_load_elements sample_blank_page)
   \<and> extract_detailed_fund_data decimal_float blank_fetch blank_link
       = \<lparr> d_aum = NaN, d_nav = NaN, d_minimum = NaN, d_minimum_sip = NaN,
           d_rating = NaN, d_expense_ratio = NaN, d_exit_load = NaN \<rparr>"
proof -
  have f: "blank_fetch blank_link = Some sample_blank_page" by (simp add: blank_fetch_def)
  have a1: "no_value decimal_float ''Fund size'' clean_aum (all_elements sample_blank_page)"
    by code_simp
  have a2: "no_value decimal_float ''NAV'' clean_amount (all_elements sample_blank_page)"
    by code_simp
  have a3: "no_value decimal_float ''Min. for SIP'' clean_amount (min_elements sample_blank_page)"
    by code_simp
  have a4: "no_value decimal_float ''Min. for 1st investment'' clean_amount
              (min_elements sample_blank_page)"
    by code_simp
  have a5: "no_rating decimal_float (rating_elements sample_blank_page)" by code_simp
  have a6: "no_expense_ratio decimal_float (exit_load_elements sample_blank_page)" by code_simp
  have a7: "no_exit_load decimal_float (exit_load_elements sample_blank_page)" by code_simp
  have "extract_detailed_fund_data decimal_float blank_fetch blank_link
          = \<lparr> d_aum = NaN, d_nav = NaN, d_minimum = NaN, d_minimum_sip = NaN,
              d_rating = NaN, d_expense_ratio = NaN, d_exit_load = NaN \<rparr>"
    using unavailable_detail_fields
            [where to_float = decimal_float and fetch_page = blank_fetch and url = blank_link,
             OF f] a1 a2 a3 a4 a5 a6 a7
    by (cases "extract_detailed_fund_data decimal_float blank_fetch blank_link") simp
  then show ?thesis using a1 a2 a3 a4 a5 a6 a7 by simp
qed

text \<open>
  The claim as the spec words it fails on the first-investment minimum: on the sample
  page its label is absent, and the field holds the 500 read for the SIP minimum.
\<close>

theorem minimum_borrows_sip_counterexample:
  "no_value decimal_float ''Min. for 1st investment'' clean_amount
     (min_elements sample_detail_page)
   \<and> d_minimum (extract_detailed_fund_data decimal_float sample_fetch sample_link) = Fin 500
   \<and> d_minimum (extract_detailed_fund_data decimal_float sample_fetch sample_link) \<noteq> NaN
   \<and> d_minimum_sip (extract_detailed_fund_data decimal_float sample_fetch sample_link) = Fin 500"
  by code_simp

section \<open>Properties of the NAV extraction\<close>

lemma fetch_amfi_nav_trace:
  "fst (fetch_amfi_nav amfi scheme_code start_date end_date)
     = [ReadAmfiFeed scheme_code start_date end_date]"
  by (simp add: fetch_amfi_nav_def)

lemma fetch_amfi_nav_result:
  "snd (fetch_amfi_nav amfi scheme_code start_date end_date)
     = (case amfi scheme_code start_date end_date of
          Inr rows \<Rightarrow> Inr rows
        | Inl e \<Rightarrow> if amfi_handled e then Inr [] else Inl e)"
  by (simp add: fetch_amfi_nav_def)

lemma primary_nav_empty:
  assumes "resp = Json (JObj kvs)"
    and "dict_get kvs ''folio'' (JObj []) = JObj folio"
    and "\<not> truthy (dict_get folio ''data'' (JArr []))"
  shows "primary_nav to_float utc_date resp = Inr []"
  using assms by (simp add: primary_nav_def)

lemma primary_nav_failed:
  "primary_nav to_float utc_date RequestFailed = Inl RequestException"
  "primary_nav to_float utc_date NotJson = Inl ValueError"
  by (simp_all add: primary_nav_def)

lemma extract_historical_nav_returned:
  assumes "\<not> code_missing scheme_code"
    and "primary_nav to_float utc_date (api scheme_code months) = Inr rows"
  shows "extract_historical_nav to_float utc_date api amfi scheme_code months
           = ([GetNav scheme_code months], Inr rows)"
  using assms by (simp add: extract_historical_nav_def)

lemma extract_historical_nav_fallback:
  assumes "\<not> code_missing scheme_code"
    and "primary_nav to_float utc_date (api scheme_code months) = Inl e"
    and "nav_handled e"
  shows "extract_historical_nav to_float utc_date api amfi scheme_code months
           = ([GetNav scheme_code months,
               ReadAmfiFeed scheme_code default_start_date default_end_date],
              snd (fetch_amfi_nav amfi scheme_code default_start_date default_end_date))"
  using assms by (simp add: extract_historical_nav_def fetch_amfi_nav_def)

lemma extract_historical_nav_raised:
  assumes "\<not> code_missing scheme_code"
    and "primary_nav to_float utc_date (api scheme_code months) = Inl e"
    and "\<not> nav_handled e"
  shows "extract_historical_nav to_float utc_date api amfi scheme_code months
           = ([GetNav scheme_code months], Inl e)"
  using assms by (simp add: extract_historical_nav_def)

text \<open>
  C1, as the code has it. For a scheme code that is present:
  \<^item> when the time-series call succeeds and the NAV list in its payload is empty (or
    otherwise falsy), \<open>extract_historical_nav\<close> returns the empty list at once: the
    bulk feed is not read and nothing is raised;
  \<^item> when the request fails or its body is not JSON, the bulk feed is read once, with the
    same scheme code and the default window, and what \<open>fetch_amfi_nav\<close> returns or
    raises is the outcome;
  \<^item> the bulk feed is read for no other reason than an exception of a handled class in
    the primary path, and never with another code or window.
\<close>

theorem nav_empty_payload_and_fallback:
  assumes "\<not> code_missing scheme_code"
  shows "(api scheme_code months = Json (JObj kvs)
            \<and> dict_get kvs ''folio'' (JObj []) = JObj folio
            \<and> \<not> truthy (dict_get folio ''data'' (JArr []))
          \<longrightarrow> extract_historical_nav to_float utc_date api amfi scheme_code months
                = ([GetNav scheme_code months], Inr []))
       \<and> (api scheme_code months = RequestFailed \<or> api scheme_code months = NotJson
          \<longrightarrow> extract_historical_nav to_float utc_date api amfi scheme_code months
                = ([GetNav scheme_code months,
                    ReadAmfiFeed scheme_code default_start_date default_end_date],
                   snd (fetch_amfi_nav amfi scheme_code default_start_date default_end_date)))
       \<and> (ReadAmfiFeed c s d
             \<in> set (fst (extract_historical_nav to_float utc_date api amfi scheme_code months))
          \<longrightarrow> c = scheme_code \<and> s = default_start_date \<and> d = default_end_date
              \<and> (\<exists>e. primary_nav to_float utc_date (api scheme_code months) = Inl e
                      \<and> nav_handled e))"
proof -
  have p1: "api scheme_code months = Json (JObj kvs)
              \<and> dict_get kvs ''folio'' (JObj []) = JObj folio
              \<and> \<not> truthy (dict_get folio ''data'' (JArr []))
            \<longrightarrow> extract_historical_nav to_float utc_date api amfi scheme_code months
                  = ([GetNav scheme_code months], Inr [])"
  proof
    assume "api scheme_code months = Json (JObj kvs)
              \<and> dict_get kvs ''folio'' (JObj []) = JObj folio
              \<and> \<not> truthy (dict_get folio ''data'' (JArr []))"
    then have "primary_nav to_float utc_date (api scheme_code months) = Inr []"
      by (simp add: primary_nav_empty)
    then show "extract_historical_nav to_float utc_date api amfi scheme_code months
                 = ([GetNav scheme_code months], Inr [])"
      using assms by (simp add: extract_historical_nav_returned)
  qed
  have p2: "api scheme_code months = RequestFailed \<or> api scheme_code months = NotJson
            \<longrightarrow> extract_historical_nav to_float utc_date api amfi scheme_code months
                  = ([GetNav scheme_code months,
                      ReadAmfiFeed scheme_code default_start_date default_end_date],
                     snd (fetch_amfi_nav amfi scheme_code default_start_date default_end_date))"
  proof
    assume "api scheme_code months = RequestFailed \<or> api scheme_code months = NotJson"
    then obtain e where "primary_nav to_float utc_date (api scheme_code months) = Inl e"
      and "nav_handled e"
      by (auto simp: primary_nav_failed nav_handled_def)
    then show "extract_historical_nav to_float utc_date api amfi scheme_code months
                 = ([GetNav scheme_code months,
                     ReadAmfiFeed scheme_code default_start_date default_end_date],
                    snd (fetch_amfi_nav amfi scheme_code default_start_date default_end_date))"
      using assms by (simp add: extract_historical_nav_fallback)
  qed
  have p3: "ReadAmfiFeed c s d
              \<in> set (fst (extract_historical_nav to_float utc_date api amfi scheme_code months))
            \<longrightarrow> c = scheme_code \<and> s = default_start_date \<and> d = default_end_date
                \<and> (\<exists>e. primary_nav to_float utc_date (api scheme_code months) = Inl e
                        \<and> nav_handled e)"
  proof
    assume m: "ReadAmfiFeed c s d
                 \<in> set (fst (extract_historical_nav to_float utc_date api amfi scheme_code months))"
    show "c = scheme_code \<and> s = default_start_date \<and> d = default_end_date
            \<and> (\<exists>e. primary_nav to_float utc_date (api scheme_code months) = Inl e
                    \<and> nav_handled e)"
    proof (cases "primary_nav to_float utc_date (api scheme_code months)")
      case (Inr rows)
      then show ?thesis
        using m assms by (simp add: extract_historical_nav_returned)
    next
      case (Inl e)
      show ?thesis
      proof (cases "nav_handled e")
        case True
        then show ?thesis
          using m assms Inl by (auto simp: extract_historical_nav_fallback)
      next
        case False
        then show ?thesis
          using m assms Inl by (simp add: extract_historical_nav_raised)
      qed
    qed
  qed
  from p1 p2 p3 show ?thesis by blast
qed

theorem nav_empty_payload_and_fallback_witness:
  "extract_historical_nav decimal_float epoch_date empty_nav_api one_row_amfi sample_code 12
     = ([GetNav sample_code 12], Inr [])
   \<and> extract_historical_nav decimal_float epoch_date empty_nav_api one_row_amfi (PyStr ''222'') 12
     = ([GetNav (PyStr ''222'') 12,
         ReadAmfiFeed (PyStr ''222'') default_start_date default_end_date],
        Inr [\<lparr> point_date = ''2025-01-02'', point_nav = Fin 101 \<rparr>])"
proof -
  have c1: "\<not> code_missing sample_code" by (simp add: sample_code_def)
  have a1: "empty_nav_api sample_code 12 = Json (JObj [(''folio'', JObj [(''data'', JArr [])])])
              \<and> dict_get [(''folio'', JObj [(''data'', JArr [])])] ''folio'' (JObj [])
                  = JObj [(''data'', JArr [])]
              \<and> \<not> truthy (dict_get [(''data'', JArr [])] ''data'' (JArr []))"
    by (simp add: empty_nav_api_def dict_get_def)
  have c2: "\<not> code_missing (PyStr ''222'')" by simp
  have a2: "empty_nav_api (PyStr ''222'') 12 = RequestFailed
              \<or> empty_nav_api (PyStr ''222'') 12 = NotJson"
    by (simp add: empty_nav_api_def sample_code_def)
  have r: "snd (fetch_amfi_nav one_row_amfi (PyStr ''222'') default_start_date default_end_date)
             = Inr [\<lparr> point_date = ''2025-01-02'', point_nav = Fin 101 \<rparr>]"
    by (simp add: fetch_amfi_nav_def one_row_amfi_def)
  note t1 = nav_empty_payload_and_fallback
            [where api = empty_nav_api and months = 12 and to_float = decimal_float
               and utc_date = epoch_date and amfi = one_row_amfi
               and kvs = "[(''folio'', JObj [(''data'', JArr [])])]"
               and folio = "[(''data'', JArr [])]", OF c1]
  note t2 = nav_empty_payload_and_fallback
            [where api = empty_nav_api and months = 12 and to_float = decimal_float
               and utc_date = epoch_date and amfi = one_row_amfi, OF c2]
  have e1: "extract_historical_nav decimal_float epoch_date empty_nav_api one_row_amfi
              sample_code 12 = ([GetNav sample_code 12], Inr [])"
    by (rule mp [OF conjunct1 [OF t1] a1])
  have e2: "extract_historical_nav decimal_float epoch_date empty_nav_api one_row_amfi
              (PyStr ''222'') 12
            = ([GetNav (PyStr ''222'') 12,
                ReadAmfiFeed (PyStr ''222'') default_start_date default_end_date],
               snd (fetch_amfi_nav one_row_amfi (PyStr ''222'') default_start_date
                      default_end_date))"
    by (rule mp [OF conjunct1 [OF conjunct2 [OF t2]] a2])
  show ?thesis
    unfolding e1 e2 r by (rule conjI) (rule refl)+
qed

text \<open>
  The claim as the spec words it fails: the endpoint answers with an empty list for
  scheme 12345, the bulk feed has a row for it, and the call returns the empty list
  without reading the feed.
\<close>

theorem empty_nav_no_fallback_counterexample:
  "empty_nav_api sample_code 12 = Json (JObj [(''folio'', JObj [(''data'', JArr [])])])
   \<and> snd (fetch_amfi_nav one_row_amfi sample_code default_start_date default_end_date)
       = Inr [\<lparr> point_date = ''2025-01-02'', point_nav = Fin 101 \<rparr>]
   \<and> extract_historical_nav decimal_float epoch_date empty_nav_api one_row_amfi sample_code 12
       = ([GetNav sample_code 12], Inr [])
   \<and> ReadAmfiFeed sample_code default_start_date default_end_date
       \<notin> set (fst (extract_historical_nav decimal_float epoch_date empty_nav_api one_row_amfi
                      sample_code 12))"
proof -
  have a: "empty_nav_api sample_code 12 = Json (JObj [(''folio'', JObj [(''data'', JArr [])])])"
    by (simp add: empty_nav_api_def)
  have b: "snd (fetch_amfi_nav one_row_amfi sample_code default_start_date default_end_date)
             = Inr [\<lparr> point_date = ''2025-01-02'', point_nav = Fin 101 \<rparr>]"
    by (simp add: fetch_amfi_nav_def one_row_amfi_def)
  have p: "primary_nav decimal_float epoch_date (empty_nav_api sample_code 12) = Inr []"
    unfolding a by (simp add: primary_nav_def dict_get_def)
  have m: "\<not> code_missing sample_code" by (simp add: sample_code_def)
  have c: "extract_historical_nav decimal_float epoch_date empty_nav_api one_row_amfi
             sample_code 12 = ([GetNav sample_code 12], Inr [])"
    using m p by (simp add: extract_historical_nav_def)
  have d: "ReadAmfiFeed sample_code default_start_date default_end_date
             \<notin> set (fst (extract_historical_nav decimal_float epoch_date empty_nav_api
                            one_row_amfi sample_code 12))"
    unfolding c by simp
  from a b c d show ?thesis by (intro conjI)
qed

end
